theory Spec2Isabelle
  imports Main "HOL-Library.Sublist"
begin

section \<open>Text as Python handles it\<close>

text \<open>
  A Python \<open>str\<close> is a sequence of code points. Here a text is a \<^typ>\<open>string\<close> whose
  characters are the code points below 256, which covers every literal of
  \<open>extract_pdf_data\<close>, \<open>get_ai_suggestions\<close> and \<open>main\<close> that is modelled (the German
  umlauts included). \<open>len\<close> is \<^const>\<open>length\<close>, \<open>+\<close> on texts is \<open>@\<close>.

  \<open>str.isspace\<close> and \<open>str.isdigit\<close> on that range: the white space characters are
  U+0009..U+000D, U+001C..U+0020, U+0085 and U+00A0; the digits are \<open>0\<close>..\<open>9\<close> and the
  superscripts U+00B2, U+00B3 and U+00B9.
\<close>

definition isspace :: "char \<Rightarrow> bool" where
  "isspace c = (let n = (of_char c :: nat) in
     (9 \<le> n \<and> n \<le> 13) \<or> (28 \<le> n \<and> n \<le> 32) \<or> n = 133 \<or> n = 160)"

definition isdigit :: "char \<Rightarrow> bool" where
  "isdigit c = (let n = (of_char c :: nat) in
     (48 \<le> n \<and> n \<le> 57) \<or> n = 178 \<or> n = 179 \<or> n = 185)"

text \<open>\<open>s.strip()\<close>: the white space at both ends is dropped.\<close>

definition str_strip :: "string \<Rightarrow> string" where
  "str_strip s = rev (dropWhile isspace (rev (dropWhile isspace s)))"

text \<open>
  \<open>s.split(sep)\<close> for a separator of one character: the pieces between the separators,
  so one piece more than there are separators (\<open>''.split('\n') == ['']\<close>).
\<close>

fun str_split :: "char \<Rightarrow> string \<Rightarrow> string list" where
  "str_split sep [] = [[]]"
| "str_split sep (c # cs) =
     (if c = sep then [] # str_split sep cs
      else (case str_split sep cs of
              [] \<Rightarrow> [[c]]
            | l # ls \<Rightarrow> (c # l) # ls))"

text \<open>\<open>sub in s\<close>: \<open>sub\<close> occurs in \<open>s\<close> as a block of adjacent characters.\<close>

fun str_contains :: "string \<Rightarrow> string \<Rightarrow> bool" where
  "str_contains sub [] = (sub = [])"
| "str_contains sub (c # cs) = (prefix sub (c # cs) \<or> str_contains sub cs)"

text \<open>\<open>s * n\<close>: \<open>n\<close> copies of \<open>s\<close>, none when \<open>n\<close> is zero or negative.\<close>

definition str_mult :: "string \<Rightarrow> int \<Rightarrow> string" where
  "str_mult s n = concat (replicate (nat n) s)"

text \<open>An integer inside an f-string: its decimal digits, after a minus sign when negative.\<close>

fun str_nat :: "nat \<Rightarrow> string" where
  "str_nat n = (if n < 10 then [''0123456789'' ! n]
                else str_nat (n div 10) @ [''0123456789'' ! (n mod 10)])"

declare str_nat.simps [simp del]

definition str_int :: "int \<Rightarrow> string" where
  "str_int i = (if i < 0 then CHR ''-'' # str_nat (nat (- i)) else str_nat (nat i))"

text \<open>
  The truth value of a value that is \<open>None\<close> or a text, as \<open>if not v\<close> reads it: \<open>None\<close>
  and the empty text are false.
\<close>

definition truthy :: "string option \<Rightarrow> bool" where
  "truthy v = (case v of None \<Rightarrow> False | Some s \<Rightarrow> s \<noteq> [])"


section \<open>The document and the file system\<close>

text \<open>
  An exception is modelled by the text that the handlers interpolate (\<open>{e}\<close>); a call
  that may raise returns \<open>Inl\<close> of it.

  Of the PyMuPDF document, \<open>extract_pdf_data\<close> reads the outline (\<open>doc.get_toc()\<close>, a list
  of level, title, page), the number of pages and, page by page, the text
  (\<open>doc.load_page(i).get_text("text")\<close>), and closes it. Each of these calls may raise.
  The document does not change while it is read: a page gives the same text, or raises the
  same exception, each time it is loaded.
\<close>

type_synonym exn = string

type_synonym toc_entry = "int \<times> string \<times> int"

record document =
  get_toc :: "exn + toc_entry list"
  pages :: "(exn + string) list"
  close :: "exn option"

definition page_count :: "document \<Rightarrow> nat" where
  "page_count doc = length (pages doc)"

definition load_page_text :: "document \<Rightarrow> nat \<Rightarrow> exn + string" where
  "load_page_text doc page_num =
     (if page_num < page_count doc then pages doc ! page_num
      else Inl ''page not in document'')"

record filesystem =
  path_exists :: "string \<Rightarrow> bool"
  fitz_open :: "string \<Rightarrow> exn + document"


section \<open>\<open>extract_pdf_data\<close>\<close>

definition toc_header :: string where
  "toc_header = ''Inhaltsverzeichnis von '' @ [CHR 0x27, CHR 0xD6] @ ''ffentliches Gestalten''
                @ [CHR 0x27] @ '':'' @ [CHR 0x0A, CHR 0x0A]"

definition toc_warning :: string where
  "toc_warning =
     ''Konnte kein detailliertes Inhaltsverzeichnis extrahieren. Analyse basiert auf Volltext.''"

definition max_toc_pages :: nat where
  "max_toc_pages = 10"

text \<open>One round of the loop over the embedded outline (source lines 64 to 66).\<close>

fun render_toc_entry :: "string \<Rightarrow> toc_entry \<Rightarrow> string" where
  "render_toc_entry toc_text (level, title, page) =
     (let indent = str_mult ''  '' (level - 1)
      in toc_text @ indent @ ''- '' @ title @ '' (Seite '' @ str_int page @ '')'' @ [CHR 0x0A])"

text \<open>
  One round of the loop over the lines of a page (source lines 75 to 84); the state is
  \<open>toc_text\<close> and \<open>found_toc_lines\<close>.
\<close>

definition scan_line :: "string \<times> nat \<Rightarrow> string \<Rightarrow> string \<times> nat" where
  "scan_line st line =
     (case st of (toc_text, found_toc_lines) \<Rightarrow>
        let clean_line = str_strip line in
        if str_contains ''...'' clean_line \<and> list_ex isdigit clean_line
        then (toc_text @ ''- '' @ clean_line @ [CHR 0x0A], found_toc_lines + 1)
        else if clean_line \<noteq> [] \<and> isdigit (last clean_line) \<and> length clean_line > 3
        then (toc_text @ ''- '' @ clean_line @ [CHR 0x0A], found_toc_lines + 1)
        else (toc_text, found_toc_lines))"

text \<open>The loop over the first pages (source lines 71 to 84).\<close>

fun scan_pages :: "document \<Rightarrow> nat list \<Rightarrow> string \<times> nat \<Rightarrow> exn + string \<times> nat" where
  "scan_pages doc [] st = Inr st"
| "scan_pages doc (page_num # rest) st =
     (case load_page_text doc page_num of
        Inl e \<Rightarrow> Inl e
      | Inr text \<Rightarrow> scan_pages doc rest (foldl scan_line st (str_split (CHR 0x0A) text)))"

text \<open>The loop over all pages that builds the full text (source lines 91 to 95).\<close>

fun full_text_pages :: "document \<Rightarrow> nat list \<Rightarrow> string \<Rightarrow> exn + string" where
  "full_text_pages doc [] full_text = Inr full_text"
| "full_text_pages doc (page_num # rest) full_text =
     (case load_page_text doc page_num of
        Inl e \<Rightarrow> Inl e
      | Inr page_text \<Rightarrow>
          full_text_pages doc rest
            (full_text @ [CHR 0x0A, CHR 0x0A] @ ''[Seite '' @ str_int (int page_num + 1) @ '']''
               @ [CHR 0x0A] @ page_text))"

text \<open>
  Steps 1 and 2 (source lines 62 to 88): the outline text and the warning, from the
  embedded outline when it is not empty, from the scan of the first pages otherwise.
\<close>

definition extract_toc :: "document \<Rightarrow> toc_entry list \<Rightarrow> exn + string option \<times> string option" where
  "extract_toc doc toc =
     (if toc \<noteq> [] then Inr (Some (foldl render_toc_entry toc_header toc), None)
      else (case scan_pages doc [0 ..< min max_toc_pages (page_count doc)] (toc_header, 0) of
              Inl e \<Rightarrow> Inl e
            | Inr (toc_text, found_toc_lines) \<Rightarrow>
                if found_toc_lines < 3 then Inr (None, Some toc_warning)
                else Inr (Some toc_text, None)))"

text \<open>
  The body of the \<open>try\<close> (source lines 59 to 97). When a call raises, the result is
  \<open>Inl\<close> of the exception and of the value \<open>toc_error\<close> has at that moment, which the
  handler returns; otherwise it is \<open>full_text\<close>, \<open>toc_text\<close> and \<open>toc_error\<close>.
\<close>

definition try_block ::
  "filesystem \<Rightarrow> string \<Rightarrow> exn \<times> string option + string \<times> string option \<times> string option" where
  "try_block fs pdf_path =
     (case fitz_open fs pdf_path of
        Inl e \<Rightarrow> Inl (e, None)
      | Inr doc \<Rightarrow>
         (case get_toc doc of
            Inl e \<Rightarrow> Inl (e, None)
          | Inr toc \<Rightarrow>
             (case extract_toc doc toc of
                Inl e \<Rightarrow> Inl (e, None)
              | Inr (toc_text, toc_error) \<Rightarrow>
                 (case full_text_pages doc [0 ..< page_count doc] [] of
                    Inl e \<Rightarrow> Inl (e, toc_error)
                  | Inr full_text \<Rightarrow>
                     (case close doc of
                        Some e \<Rightarrow> Inl (e, toc_error)
                      | None \<Rightarrow> Inr (full_text, toc_text, toc_error))))))"

text \<open>
  The function returns the tuple \<open>full_text, toc_text, toc_error, pdf_error\<close>, each
  \<open>None\<close> or a text. The memoisation of \<open>st.cache_data\<close> is not part of the model: this
  is the function that is run when the cache has no entry.
\<close>

definition extract_pdf_data ::
  "filesystem \<Rightarrow> string \<Rightarrow> string option \<times> string option \<times> string option \<times> string option" where
  "extract_pdf_data fs pdf_path =
     (if \<not> path_exists fs pdf_path
      then (None, None,
            Some (''Fehler: Die Handbuchdatei '' @ [CHR 0x27] @ pdf_path @ [CHR 0x27]
                  @ '' wurde nicht gefunden.''),
            None)
      else (case try_block fs pdf_path of
              Inl (e, toc_error) \<Rightarrow>
                (None, None, toc_error, Some (''Fehler bei der PDF-Verarbeitung: '' @ e))
            | Inr (full_text, toc_text, toc_error) \<Rightarrow>
                (Some full_text, toc_text, toc_error, None)))"


section \<open>What the claims about \<open>extract_pdf_data\<close> speak of\<close>

text \<open>
  The test that \<open>scan_line\<close> applies to the stripped line, its two branches joined, and
  the text it appends for a line that passes.
\<close>

definition toc_heuristic :: "string \<Rightarrow> bool" where
  "toc_heuristic clean_line =
     (str_contains ''...'' clean_line \<and> list_ex isdigit clean_line
      \<or> clean_line \<noteq> [] \<and> isdigit (last clean_line) \<and> length clean_line > 3)"

definition toc_bullet :: "string \<Rightarrow> string" where
  "toc_bullet clean_line = ''- '' @ clean_line @ [CHR 0x0A]"

text \<open>
  The matched lines of the given page texts, in document order: every line of every
  page, stripped, that passes the test.
\<close>

definition fallback_matches :: "string list \<Rightarrow> string list" where
  "fallback_matches texts =
     filter toc_heuristic (map str_strip (concat (map (str_split (CHR 0x0A)) texts)))"

text \<open>
  The criteria in the words of the specification: a run of three or more consecutive
  period characters and a digit anywhere, or non-empty with a digit as last character
  and more than three characters.
\<close>

definition period_run :: "string \<Rightarrow> bool" where
  "period_run l = (\<exists>pre k post. 3 \<le> k \<and> l = pre @ replicate k (CHR ''.'') @ post)"

definition spec_candidate :: "string \<Rightarrow> bool" where
  "spec_candidate l =
     (period_run l \<and> (\<exists>c. c \<in> set l \<and> isdigit c)
      \<or> l \<noteq> [] \<and> isdigit (last l) \<and> 3 < length l)"

text \<open>The line of the outline text for one entry of the embedded outline.\<close>

fun toc_line :: "toc_entry \<Rightarrow> string" where
  "toc_line (level, title, page) =
     replicate (2 * nat (level - 1)) (CHR '' '') @ ''- '' @ title
       @ '' (Seite '' @ str_int page @ '')''"

text \<open>The block of the full text for the page with the 1-based number \<open>n\<close>.\<close>

definition page_block :: "nat \<Rightarrow> string \<Rightarrow> string" where
  "page_block n page_text =
     [CHR 0x0A, CHR 0x0A] @ ''[Seite '' @ str_nat n @ '']'' @ [CHR 0x0A] @ page_text"

text \<open>The lines of \<^const>\<open>toc_header\<close>: the heading and an empty line.\<close>

definition toc_header_lines :: "string list" where
  "toc_header_lines =
     [''Inhaltsverzeichnis von '' @ [CHR 0x27, CHR 0xD6] @ ''ffentliches Gestalten''
        @ [CHR 0x27] @ '':'',
      []]"

text \<open>The indentation of a line: the number of blanks it starts with.\<close>

definition indentation :: "string \<Rightarrow> nat" where
  "indentation l = length (takeWhile (\<lambda>c. c = CHR '' '') l)"

text \<open>
  The first exception in program order: of opening, of reading the outline, of the
  first page whose text cannot be read, of closing.
\<close>

fun first_error :: "(exn + 'a) list \<Rightarrow> exn option" where
  "first_error [] = None"
| "first_error (Inl e # rs) = Some e"
| "first_error (Inr x # rs) = first_error rs"

definition first_exception :: "filesystem \<Rightarrow> string \<Rightarrow> exn option" where
  "first_exception fs pdf_path =
     (case fitz_open fs pdf_path of
        Inl e \<Rightarrow> Some e
      | Inr doc \<Rightarrow>
         (case get_toc doc of
            Inl e \<Rightarrow> Some e
          | Inr toc \<Rightarrow>
             (case first_error (pages doc) of
                Some e \<Rightarrow> Some e
              | None \<Rightarrow> close doc)))"

text \<open>A file system that holds one document, under one path.\<close>

definition single_file :: "string \<Rightarrow> document \<Rightarrow> filesystem" where
  "single_file path doc =
     \<lparr>path_exists = (\<lambda>p. p = path),
      fitz_open = (\<lambda>p. if p = path then Inr doc else Inl ''no such file'')\<rparr>"

text \<open>Documents for the examples.\<close>

definition doc_outline :: document where
  "doc_outline =
     \<lparr>get_toc = Inr [(1, ''Einleitung'', 5), (2, ''Ziele'', 7), (1, ''Anhang'', 30)],
      pages = [Inr ''Hallo'', Inr ''Welt''],
      close = None\<rparr>"

definition doc_fallback :: document where
  "doc_fallback =
     \<lparr>get_toc = Inr [],
      pages = [Inr ''Inhalt\<newline>1 Einleitung ..... 5 \<newline>  Methoden 12\<newline>Anhang 30'',
               Inr ''Text''],
      close = None\<rparr>"

definition doc_sparse :: document where
  "doc_sparse = \<lparr>get_toc = Inr [], pages = [Inr ''Kapitel 12'', Inr ''Text''], close = None\<rparr>"

definition doc_broken_page :: document where
  "doc_broken_page =
     \<lparr>get_toc = Inr [],
      pages = [Inr ''Einleitung 5\<newline>Methoden 12\<newline>Anhang 30'',
               Inr [], Inr [], Inr [], Inr [], Inr [], Inr [], Inr [], Inr [], Inr [],
               Inl ''cannot load page''],
      close = None\<rparr>"

definition doc_broken_outline :: document where
  "doc_broken_outline =
     \<lparr>get_toc = Inl ''bad outline'', pages = [Inr ''Hallo''], close = None\<rparr>"

definition doc_title_newline :: document where
  "doc_title_newline =
     \<lparr>get_toc = Inr [(1, ''Teil 1\<newline>Grundlagen'', 3)], pages = [Inr ''Hallo''], close = None\<rparr>"

definition doc_outline_broken_page :: document where
  "doc_outline_broken_page =
     \<lparr>get_toc = Inr [(1, ''Einleitung'', 5)], pages = [Inl ''cannot load page''], close = None\<rparr>"

definition doc_empty :: document where
  "doc_empty = \<lparr>get_toc = Inr [], pages = [], close = None\<rparr>"

definition doc_unreadable :: document where
  "doc_unreadable = \<lparr>get_toc = Inr [], pages = [Inr ''Kapitel 12'', Inl ''cannot load page''], close = None\<rparr>"


section \<open>\<open>get_ai_suggestions\<close> and the processing of a submission in \<open>main\<close>\<close>

text \<open>
  The calls that leave the program, each of which may raise: \<open>genai.configure\<close>,
  \<open>genai.GenerativeModel\<close>, reading the file of the handbook, and
  \<open>model.generate_content\<close> (for the configured key and model, the bytes of the file and
  the prompt), whose response has the property \<open>text\<close>, which may raise too.
\<close>

record external =
  genai_configure :: "string option \<Rightarrow> exn option"
  generative_model :: "string \<Rightarrow> exn option"
  read_file :: "string \<Rightarrow> exn + string"
  generate_content :: "string option \<Rightarrow> string \<Rightarrow> string \<Rightarrow> string \<Rightarrow> exn + (exn + string)"

text \<open>
  What the program does to the page and to the outside, in the order it does it: the
  Streamlit calls that show something, and the calls of \<^typ>\<open>external\<close>.
\<close>

datatype effect =
    St_warning string
  | St_error string
  | St_markdown string
  | St_subheader string
  | St_spinner string
  | Genai_configure "string option"
  | Generative_model string
  | Open_read string
  | Generate_content string string

text \<open>
  The fixed text of the prompt, before and after the place of the problem description.
  It is a parameter: it holds pictographs beyond the characters of this model, and
  nothing proved here depends on it.
\<close>

record template =
  prompt_before :: string
  prompt_after :: string

definition PDF_PATH :: string where
  "PDF_PATH = ''Oeffentliches_Gestalten.pdf''"

definition MODEL_NAME :: string where
  "MODEL_NAME = ''gemini-2.5-flash-preview-04-17''"

text \<open>
  The body of the \<open>try\<close> of \<open>get_ai_suggestions\<close> (source lines 135 to 203): the effects
  so far, and the exception raised or the text returned.
\<close>

definition try_suggestions ::
  "external \<Rightarrow> template \<Rightarrow> string option \<Rightarrow> string \<Rightarrow> effect list \<times> (exn + string)" where
  "try_suggestions ext tpl API_KEY problem_description =
     (case genai_configure ext API_KEY of
        Some e \<Rightarrow> ([Genai_configure API_KEY], Inl e)
      | None \<Rightarrow>
         (case generative_model ext MODEL_NAME of
            Some e \<Rightarrow> ([Genai_configure API_KEY, Generative_model MODEL_NAME], Inl e)
          | None \<Rightarrow>
             (let prompt = prompt_before tpl @ problem_description @ prompt_after tpl in
              case read_file ext PDF_PATH of
                Inl e \<Rightarrow>
                  ([Genai_configure API_KEY, Generative_model MODEL_NAME, Open_read PDF_PATH],
                   Inl e)
              | Inr pdf_data \<Rightarrow>
                 (case generate_content ext API_KEY MODEL_NAME pdf_data prompt of
                    Inl e \<Rightarrow>
                      ([Genai_configure API_KEY, Generative_model MODEL_NAME,
                        Open_read PDF_PATH, Generate_content pdf_data prompt], Inl e)
                  | Inr response \<Rightarrow>
                      ([Genai_configure API_KEY, Generative_model MODEL_NAME,
                        Open_read PDF_PATH, Generate_content pdf_data prompt],
                       (case response of Inl e \<Rightarrow> Inl e | Inr text \<Rightarrow> Inr text))))))"

definition get_ai_suggestions ::
  "external \<Rightarrow> template \<Rightarrow> string option \<Rightarrow> string \<Rightarrow> effect list \<times> string option" where
  "get_ai_suggestions ext tpl API_KEY problem_description =
     (if \<not> truthy API_KEY
      then ([St_error (''Google API-Schl'' @ [CHR 0xFC] @ ''ssel nicht konfiguriert. Bitte .env-Datei pr''
                       @ [CHR 0xFC] @ ''fen.'')], None)
      else (case try_suggestions ext tpl API_KEY problem_description of
              (effects, Inl e) \<Rightarrow>
                (effects @ [St_error (''Fehler bei der Kommunikation mit der Gemini API: '' @ e)],
                 None)
            | (effects, Inr text) \<Rightarrow> (effects, Some text)))"

text \<open>
  What \<open>main\<close> does with the values of the form (source lines 460 to 477), after it has
  drawn the page and loaded the handbook: \<open>submit_button\<close> is whether the form was
  submitted, \<open>problem_description\<close> the text of the text area.
\<close>

definition main_process ::
  "external \<Rightarrow> template \<Rightarrow> string option \<Rightarrow> bool \<Rightarrow> string option \<Rightarrow> effect list" where
  "main_process ext tpl API_KEY submit_button problem_description =
     (if submit_button then
        (case problem_description of
           None \<Rightarrow>
             [St_warning (''Bitte geben Sie eine aussagekr'' @ [CHR 0xE4]
                          @ ''ftige Problembeschreibung ein (mind. 20 Zeichen).'')]
         | Some description \<Rightarrow>
             if description = [] \<or> length description < 20
             then [St_warning (''Bitte geben Sie eine aussagekr'' @ [CHR 0xE4]
                               @ ''ftige Problembeschreibung ein (mind. 20 Zeichen).'')]
             else if \<not> truthy API_KEY
             then [St_error (''Google API-Schl'' @ [CHR 0xFC] @ ''ssel fehlt. Bitte konfigurieren.'')]
             else (case get_ai_suggestions ext tpl API_KEY description of
                     (effects, suggestions) \<Rightarrow>
                       [St_spinner (''KI analysiert das Problem und sucht nach '' @ [CHR 0xDC]
                                    @ ''bungen...'')]
                       @ effects
                       @ [St_markdown ''---'', St_subheader ''Ergebnis der Analyse'']
                       @ (case suggestions of
                            Some text \<Rightarrow>
                              if text \<noteq> []
                              then [St_markdown (''<div class='' @ [CHR 0x22] @ ''result-card''
                                                 @ [CHR 0x22] @ ''>'' @ text @ ''</div>'')]
                              else [St_error (''Es konnten keine Vorschl'' @ [CHR 0xE4]
                                     @ ''ge generiert werden. '' @ [CHR 0xDC] @ ''berpr'' @ [CHR 0xFC]
                                     @ ''fen Sie die Fehlermeldungen.'')]
                          | None \<Rightarrow>
                              [St_error (''Es konnten keine Vorschl'' @ [CHR 0xE4]
                                     @ ''ge generiert werden. '' @ [CHR 0xDC] @ ''berpr'' @ [CHR 0xFC]
                                     @ ''fen Sie die Fehlermeldungen.'')])))
      else [])"

text \<open>Services and a template for the examples.\<close>

definition stub_external :: external where
  "stub_external =
     \<lparr>genai_configure = (\<lambda>key. None),
      generative_model = (\<lambda>name. None),
      read_file = (\<lambda>path. Inr ''%PDF-1.4''),
      generate_content = (\<lambda>key name pdf_data prompt. Inr (Inr ''## Result\<newline>OK''))\<rparr>"

definition failing_external :: external where
  "failing_external =
     \<lparr>genai_configure = (\<lambda>key. None),
      generative_model = (\<lambda>name. None),
      read_file = (\<lambda>path. Inr ''%PDF-1.4''),
      generate_content = (\<lambda>key name pdf_data prompt. Inl ''429 quota exceeded'')\<rparr>"

definition stub_template :: template where
  "stub_template = \<lparr>prompt_before = ''PROBLEMBESCHREIBUNG DES BENUTZERS: '', prompt_after = []\<rparr>"


section \<open>Lemmas about texts\<close>

lemma str_split_not_Nil: "str_split sep s \<noteq> []"
  by (induction s) (auto split: list.splits)

lemma str_split_no_sep: "l \<in> set (str_split sep s) \<Longrightarrow> sep \<notin> set l"
proof (induction s arbitrary: l)
  case Nil
  then show ?case by simp
next
  case (Cons c cs)
  show ?case
  proof (cases "c = sep")
    case True
    with Cons show ?thesis by auto
  next
    case False
    obtain x xs where sp: "str_split sep cs = x # xs"
      using str_split_not_Nil [of sep cs] by (cases "str_split sep cs") auto
    with False Cons.prems have "l = c # x \<or> l \<in> set xs" by auto
    with False sp Cons.IH show ?thesis by auto
  qed
qed

lemma str_split_line: "sep \<notin> set l \<Longrightarrow> str_split sep (l @ sep # rest) = l # str_split sep rest"
  by (induction l) auto

lemma str_split_lines:
  "(\<And>l. l \<in> set ls \<Longrightarrow> sep \<notin> set l) \<Longrightarrow>
   str_split sep (concat (map (\<lambda>l. l @ [sep]) ls) @ rest) = ls @ str_split sep rest"
  by (induction ls) (auto simp: str_split_line)

lemma set_str_strip: "set (str_strip s) \<subseteq> set s"
proof -
  have "set (dropWhile isspace (rev (dropWhile isspace s))) \<subseteq> set (rev (dropWhile isspace s))"
    by (rule set_dropWhileD [THEN subsetI]) 
  also have "\<dots> \<subseteq> set s" using set_dropWhileD [of _ isspace s] by auto
  finally show ?thesis by (simp add: str_strip_def)
qed

lemma str_contains_iff: "str_contains sub s \<longleftrightarrow> (\<exists>pre post. s = pre @ sub @ post)"
proof (induction s)
  case Nil
  then show ?case by auto
next
  case (Cons c cs)
  show ?case
  proof
    assume "str_contains sub (c # cs)"
    then consider "prefix sub (c # cs)" | "str_contains sub cs" by auto
    then show "\<exists>pre post. c # cs = pre @ sub @ post"
    proof cases
      case 1
      then obtain post where "c # cs = sub @ post" by (auto simp: prefix_def)
      then have "c # cs = [] @ sub @ post" by simp
      then show ?thesis by blast
    next
      case 2
      with Cons obtain pre post where "cs = pre @ sub @ post" by blast
      then have "c # cs = (c # pre) @ sub @ post" by simp
      then show ?thesis by blast
    qed
  next
    assume "\<exists>pre post. c # cs = pre @ sub @ post"
    then obtain pre post where eq: "c # cs = pre @ sub @ post" by blast
    show "str_contains sub (c # cs)"
    proof (cases pre)
      case Nil
      with eq have "prefix sub (c # cs)" by (simp add: prefix_def)
      then show ?thesis by simp
    next
      case (Cons p ps)
      with eq have "cs = ps @ sub @ post" by simp
      with Cons.IH have "str_contains sub cs" by blast
      then show ?thesis by simp
    qed
  qed
qed

lemma str_nat_digits: "set (str_nat n) \<subseteq> set ''0123456789''"
proof (induction n rule: str_nat.induct)
  case (1 n)
  have d: "\<And>k. k < 10 \<Longrightarrow> ''0123456789'' ! k \<in> set ''0123456789''"
    by (rule nth_mem) simp
  show ?case
  proof (cases "n < 10")
    case True
    then show ?thesis using d [of n] by (subst str_nat.simps) simp
  next
    case False
    have "n mod 10 < 10" by simp
    with False 1 d [of "n mod 10"] show ?thesis by (subst str_nat.simps) simp
  qed
qed

lemma newline_notin_str_int: "CHR 0x0A \<notin> set (str_int i)"
  using str_nat_digits [of "nat i"] str_nat_digits [of "nat (- i)"]
  by (auto simp: str_int_def)


section \<open>Lemmas about the loops of \<open>extract_pdf_data\<close>\<close>

lemma scan_line_eq:
  "scan_line (toc_text, found) line =
     (if toc_heuristic (str_strip line)
      then (toc_text @ toc_bullet (str_strip line), found + 1)
      else (toc_text, found))"
  by (simp add: scan_line_def toc_heuristic_def toc_bullet_def Let_def)

lemma foldl_scan_line:
  "foldl scan_line (toc_text, found) lines =
     (toc_text @ concat (map toc_bullet (filter toc_heuristic (map str_strip lines))),
      found + length (filter toc_heuristic (map str_strip lines)))"
  by (induction lines arbitrary: toc_text found) (simp_all add: scan_line_eq)

lemma fallback_matches_Nil: "fallback_matches [] = []"
  by (simp add: fallback_matches_def)

lemma fallback_matches_Cons:
  "fallback_matches (text # texts) =
     filter toc_heuristic (map str_strip (str_split (CHR 0x0A) text)) @ fallback_matches texts"
  by (simp add: fallback_matches_def)

lemma scan_pages_ok:
  "map (load_page_text doc) idxs = map Inr texts \<Longrightarrow>
   scan_pages doc idxs (toc_text, found) =
     Inr (toc_text @ concat (map toc_bullet (fallback_matches texts)),
          found + length (fallback_matches texts))"
proof (induction idxs arbitrary: texts toc_text found)
  case Nil
  then show ?case by (simp add: fallback_matches_Nil)
next
  case (Cons i idxs)
  then obtain t ts where texts: "texts = t # ts" by (cases texts) auto
  with Cons.prems have hd: "load_page_text doc i = Inr t"
    and tl: "map (load_page_text doc) idxs = map Inr ts" by auto
  show ?case
    by (simp add: hd texts foldl_scan_line Cons.IH [OF tl] fallback_matches_Cons)
qed

lemma scan_pages_error:
  "first_error (map (load_page_text doc) idxs) = Some e \<Longrightarrow> scan_pages doc idxs st = Inl e"
proof (induction idxs arbitrary: st)
  case Nil
  then show ?case by simp
next
  case (Cons i idxs)
  then show ?case by (cases "load_page_text doc i") auto
qed

lemma full_text_pages_error:
  "first_error (map (load_page_text doc) idxs) = Some e \<Longrightarrow> full_text_pages doc idxs ft = Inl e"
proof (induction idxs arbitrary: ft)
  case Nil
  then show ?case by simp
next
  case (Cons i idxs)
  then show ?case by (cases "load_page_text doc i") auto
qed

lemma first_error_None: "first_error rs = None \<Longrightarrow> \<exists>xs. rs = map Inr xs"
proof (induction rs rule: first_error.induct)
  case 1
  then show ?case by simp
next
  case (2 e rs)
  then show ?case by simp
next
  case (3 x rs)
  then obtain xs where "rs = map Inr xs" by auto
  then show ?case by (intro exI [of _ "x # xs"]) simp
qed

lemma first_error_map_Inr: "first_error (map Inr xs) = None"
  by (induction xs) auto

lemma first_error_take:
  "first_error (take k rs) = Some e \<Longrightarrow> first_error rs = Some e"
proof (induction rs arbitrary: k rule: first_error.induct)
  case 1
  then show ?case by simp
next
  case (2 e' rs)
  then show ?case by (cases k) auto
next
  case (3 x rs)
  then show ?case by (cases k) auto
qed

lemma load_pages: "k \<le> page_count doc \<Longrightarrow> map (load_page_text doc) [0 ..< k] = take k (pages doc)"
  by (auto simp: list_eq_iff_nth_eq load_page_text_def page_count_def)

lemma str_int_nat: "str_int (int n + 1) = str_nat (Suc n)"
  by (simp add: str_int_def nat_add_distrib)

lemma full_text_pages_ok:
  "map (load_page_text doc) idxs = map Inr texts \<Longrightarrow>
   full_text_pages doc idxs full_text =
     Inr (full_text @ concat (map2 page_block (map Suc idxs) texts))"
proof (induction idxs arbitrary: texts full_text)
  case Nil
  then show ?case by simp
next
  case (Cons i idxs)
  then obtain t ts where texts: "texts = t # ts" by (cases texts) auto
  with Cons.prems have hd: "load_page_text doc i = Inr t"
    and tl: "map (load_page_text doc) idxs = map Inr ts" by auto
  show ?case
    by (simp add: hd texts Cons.IH [OF tl] page_block_def str_int_nat)
qed

lemma str_mult_spaces: "str_mult ''  '' n = replicate (2 * nat n) (CHR '' '')"
proof -
  have "concat (replicate k ''  '') = replicate (2 * k) (CHR '' '')" for k
    by (induction k) auto
  then show ?thesis by (simp add: str_mult_def)
qed

lemma render_toc_entry_eq: "render_toc_entry toc_text entry = toc_text @ toc_line entry @ [CHR 0x0A]"
  by (cases entry) (simp add: str_mult_spaces)

lemma foldl_render_toc_entry:
  "foldl render_toc_entry toc_text toc = toc_text @ concat (map (\<lambda>entry. toc_line entry @ [CHR 0x0A]) toc)"
  by (induction toc arbitrary: toc_text) (simp_all add: render_toc_entry_eq)

lemma toc_header_lines: "toc_header = concat (map (\<lambda>l. l @ [CHR 0x0A]) toc_header_lines)"
  by (simp add: toc_header_def toc_header_lines_def)

lemma newline_notin_header: "l \<in> set toc_header_lines \<Longrightarrow> CHR 0x0A \<notin> set l"
  by (auto simp: toc_header_lines_def)

lemma split_rendered_lines:
  assumes "\<And>l. l \<in> set ls \<Longrightarrow> CHR 0x0A \<notin> set l"
  shows "str_split (CHR 0x0A) (toc_header @ concat (map (\<lambda>l. l @ [CHR 0x0A]) ls))
           = toc_header_lines @ ls @ [[]]"
proof -
  have "toc_header @ concat (map (\<lambda>l. l @ [CHR 0x0A]) ls)
          = concat (map (\<lambda>l. l @ [CHR 0x0A]) (toc_header_lines @ ls)) @ []"
    by (simp add: toc_header_lines)
  moreover have "\<And>l. l \<in> set (toc_header_lines @ ls) \<Longrightarrow> CHR 0x0A \<notin> set l"
    using assms newline_notin_header by auto
  ultimately show ?thesis
    using str_split_lines [of "toc_header_lines @ ls" "CHR 0x0A" "[]"] by simp
qed

lemma fallback_matches_no_newline: "l \<in> set (fallback_matches texts) \<Longrightarrow> CHR 0x0A \<notin> set l"
proof -
  assume "l \<in> set (fallback_matches texts)"
  then obtain t raw where raw: "raw \<in> set (str_split (CHR 0x0A) t)" and l: "l = str_strip raw"
    by (auto simp: fallback_matches_def)
  from raw have "CHR 0x0A \<notin> set raw" by (rule str_split_no_sep)
  with l set_str_strip [of raw] show ?thesis by auto
qed

lemma toc_bullet_lines:
  "concat (map toc_bullet ls) = concat (map (\<lambda>l. l @ [CHR 0x0A]) (map ((@) ''- '') ls))"
  by (induction ls) (simp_all add: toc_bullet_def)

lemma map_Suc_upt_from_1: "map Suc [0 ..< n] = [1 ..< Suc n]"
  using map_Suc_upt [of 0 n] by simp

lemma extract_toc_embedded:
  "toc \<noteq> [] \<Longrightarrow>
   extract_toc doc toc =
     Inr (Some (toc_header @ concat (map (\<lambda>entry. toc_line entry @ [CHR 0x0A]) toc)), None)"
  by (simp add: extract_toc_def foldl_render_toc_entry)

lemma scanned_pages:
  "map (load_page_text doc) [0 ..< min max_toc_pages (page_count doc)] = take max_toc_pages (pages doc)"
proof -
  have "map (load_page_text doc) [0 ..< min max_toc_pages (page_count doc)]
          = take (min max_toc_pages (page_count doc)) (pages doc)"
    by (rule load_pages) simp
  also have "\<dots> = take max_toc_pages (pages doc)"
    by (simp add: page_count_def min_def)
  finally show ?thesis .
qed

lemma extract_toc_fallback:
  assumes "take max_toc_pages (pages doc) = map Inr texts"
  shows "extract_toc doc [] =
     (if length (fallback_matches texts) < 3 then Inr (None, Some toc_warning)
      else Inr (Some (toc_header @ concat (map toc_bullet (fallback_matches texts))), None))"
proof -
  have "map (load_page_text doc) [0 ..< min max_toc_pages (page_count doc)] = map Inr texts"
    using assms by (simp add: scanned_pages)
  from scan_pages_ok [OF this, of toc_header 0] show ?thesis
    by (simp add: extract_toc_def)
qed

lemma all_pages: "map (load_page_text doc) [0 ..< page_count doc] = pages doc"
  using load_pages [of "page_count doc" doc] by (simp add: page_count_def)

lemma full_text_all_pages:
  assumes "pages doc = map Inr texts"
  shows "full_text_pages doc [0 ..< page_count doc] [] =
           Inr (concat (map2 page_block [1 ..< Suc (length texts)] texts))"
proof -
  have "map (load_page_text doc) [0 ..< page_count doc] = map Inr texts"
    using assms by (simp add: all_pages)
  from full_text_pages_ok [OF this, of "[]"] show ?thesis
    using assms by (simp add: map_Suc_upt_from_1 page_count_def)
qed

lemma extract_pdf_data_ok:
  assumes "path_exists fs pdf_path" "fitz_open fs pdf_path = Inr doc" "get_toc doc = Inr toc"
    and "extract_toc doc toc = Inr (toc_text, toc_error)"
    and "pages doc = map Inr texts" "close doc = None"
  shows "extract_pdf_data fs pdf_path =
           (Some (concat (map2 page_block [1 ..< Suc (length texts)] texts)), toc_text, toc_error, None)"
  using assms by (simp add: extract_pdf_data_def try_block_def full_text_all_pages)

lemma indentation_toc_line: "indentation (toc_line (level, title, page)) = 2 * nat (level - 1)"
proof -
  have "takeWhile (\<lambda>c. c = CHR '' '') (replicate k (CHR '' '') @ CHR ''-'' # rest)
          = replicate k (CHR '' '')" for k rest
    by (induction k) auto
  then show ?thesis by (simp add: indentation_def)
qed

lemma newline_notin_toc_line:
  "CHR 0x0A \<notin> set title \<Longrightarrow> CHR 0x0A \<notin> set (toc_line (level, title, page))"
  using newline_notin_str_int [of page] by auto

lemma extract_toc_total:
  assumes "pages doc = map Inr texts"
  shows "\<exists>toc_text toc_error. extract_toc doc toc = Inr (toc_text, toc_error)"
proof (cases "toc = []")
  case True
  from assms have "take max_toc_pages (pages doc) = map Inr (take max_toc_pages texts)"
    by (simp add: take_map)
  then show ?thesis using True by (simp add: extract_toc_fallback)
next
  case False
  then show ?thesis by (simp add: extract_toc_embedded)
qed

lemma try_block_page_error:
  assumes "fitz_open fs pdf_path = Inr doc" "get_toc doc = Inr toc"
    and "first_error (pages doc) = Some e"
  shows "\<exists>toc_error. try_block fs pdf_path = Inl (e, toc_error)"
proof -
  have full: "full_text_pages doc [0 ..< page_count doc] [] = Inl e"
    using assms(3) by (intro full_text_pages_error) (simp add: all_pages)
  show ?thesis
  proof (cases "extract_toc doc toc")
    case (Inl e')
    then have empty: "toc = []" by (auto simp: extract_toc_def split: if_splits)
    have "first_error (take max_toc_pages (pages doc)) = Some e"
    proof (cases "first_error (take max_toc_pages (pages doc))")
      case None
      then obtain xs where "take max_toc_pages (pages doc) = map Inr xs"
        using first_error_None by blast
      then have "\<exists>r. extract_toc doc [] = Inr r" by (simp add: extract_toc_fallback)
      with Inl empty show ?thesis by simp
    next
      case (Some e'')
      then have "first_error (pages doc) = Some e''" by (rule first_error_take)
      with assms(3) Some show ?thesis by simp
    qed
    then have "scan_pages doc [0 ..< min max_toc_pages (page_count doc)] (toc_header, 0) = Inl e"
      by (intro scan_pages_error) (simp add: scanned_pages)
    with empty have "extract_toc doc toc = Inl e" by (simp add: extract_toc_def)
    with assms show ?thesis by (simp add: try_block_def)
  next
    case (Inr r)
    with assms full show ?thesis by (cases r) (simp add: try_block_def)
  qed
qed

lemma period_run_iff: "period_run l \<longleftrightarrow> str_contains ''...'' l"
proof
  assume "period_run l"
  then obtain pre k post where k: "3 \<le> k" and l: "l = pre @ replicate k (CHR ''.'') @ post"
    by (auto simp: period_run_def)
  from k have "replicate k (CHR ''.'') = replicate 3 (CHR ''.'') @ replicate (k - 3) (CHR ''.'')"
    by (simp add: replicate_add [symmetric])
  then have "replicate k (CHR ''.'') = ''...'' @ replicate (k - 3) (CHR ''.'')"
    by (simp add: numeral_3_eq_3)
  with l have "l = pre @ ''...'' @ (replicate (k - 3) (CHR ''.'') @ post)" by simp
  then show "str_contains ''...'' l" unfolding str_contains_iff by blast
next
  assume "str_contains ''...'' l"
  then obtain pre post where "l = pre @ ''...'' @ post" unfolding str_contains_iff by blast
  then have "l = pre @ replicate 3 (CHR ''.'') @ post" by (simp add: numeral_3_eq_3)
  then show "period_run l" unfolding period_run_def by blast
qed

lemma spec_candidate_iff: "spec_candidate l \<longleftrightarrow> toc_heuristic l"
  unfolding spec_candidate_def toc_heuristic_def period_run_iff list_ex_iff by blast

lemma get_ai_suggestions_starts:
  "truthy API_KEY \<Longrightarrow>
   \<exists>rest. fst (get_ai_suggestions ext tpl API_KEY problem_description) = Genai_configure API_KEY # rest"
  by (auto simp: get_ai_suggestions_def try_suggestions_def Let_def
      split: option.split sum.split)


section \<open>The outline from the scan of the first pages\<close>

text \<open>
  Claim C1, amended. Take a document that exists, opens and has no embedded outline
  (\<open>get_toc\<close> returns the empty list). If the texts of its first ten pages (of all its
  pages when it has fewer) can be read and fewer than 3 of their lines match, the
  outline result is \<open>None\<close> and the warning is set, whatever happens afterwards. If all
  its pages can be read, closing it does not raise and 3 or more lines match, the warning
  is \<open>None\<close> and the outline result is the heading followed by exactly the matched lines,
  in document order, each stripped, after \<open>- \<close> and on a line of its own.
\<close>

theorem fallback_outline:
  assumes "path_exists fs pdf_path" "fitz_open fs pdf_path = Inr doc" "get_toc doc = Inr []"
  shows "(take max_toc_pages (pages doc) = map Inr texts \<and> length (fallback_matches texts) < 3 \<longrightarrow>
            (\<exists>full_text pdf_error.
               extract_pdf_data fs pdf_path = (full_text, None, Some toc_warning, pdf_error)))
       \<and> (pages doc = map Inr all_texts \<and> close doc = None
            \<and> 3 \<le> length (fallback_matches (take max_toc_pages all_texts)) \<longrightarrow>
            (\<exists>full_text outline.
               extract_pdf_data fs pdf_path = (Some full_text, Some outline, None, None)
               \<and> outline = toc_header
                    @ concat (map toc_bullet (fallback_matches (take max_toc_pages all_texts)))
               \<and> str_split (CHR 0x0A) outline = toc_header_lines
                    @ map ((@) ''- '') (fallback_matches (take max_toc_pages all_texts)) @ [[]]))"
proof (intro conjI impI)
  assume "take max_toc_pages (pages doc) = map Inr texts \<and> length (fallback_matches texts) < 3"
  then have toc: "extract_toc doc [] = Inr (None, Some toc_warning)"
    by (simp add: extract_toc_fallback)
  show "\<exists>full_text pdf_error.
          extract_pdf_data fs pdf_path = (full_text, None, Some toc_warning, pdf_error)"
    using assms toc
    by (simp add: extract_pdf_data_def try_block_def split: sum.split option.split)
next
  let ?m = "fallback_matches (take max_toc_pages all_texts)"
  assume a: "pages doc = map Inr all_texts \<and> close doc = None \<and> 3 \<le> length ?m"
  then have "take max_toc_pages (pages doc) = map Inr (take max_toc_pages all_texts)"
    by (simp add: take_map)
  with a have toc: "extract_toc doc [] = Inr (Some (toc_header @ concat (map toc_bullet ?m)), None)"
    by (simp add: extract_toc_fallback)
  have "\<And>l. l \<in> set (map ((@) ''- '') ?m) \<Longrightarrow> CHR 0x0A \<notin> set l"
    using fallback_matches_no_newline by auto
  then have "str_split (CHR 0x0A) (toc_header @ concat (map toc_bullet ?m))
               = toc_header_lines @ map ((@) ''- '') ?m @ [[]]"
    unfolding toc_bullet_lines by (rule split_rendered_lines)
  with extract_pdf_data_ok [OF assms toc] a
  show "\<exists>full_text outline.
          extract_pdf_data fs pdf_path = (Some full_text, Some outline, None, None)
          \<and> outline = toc_header @ concat (map toc_bullet ?m)
          \<and> str_split (CHR 0x0A) outline = toc_header_lines @ map ((@) ''- '') ?m @ [[]]"
    by simp
qed

text \<open>
  The theorem at two documents: one page of \<open>doc_sparse\<close> holds a single matching line;
  the first page of \<open>doc_fallback\<close> holds three, two of them with white space around.
\<close>

theorem fallback_outline_witness:
  "(\<exists>full_text pdf_error.
      extract_pdf_data (single_file PDF_PATH doc_sparse) PDF_PATH
        = (full_text, None, Some toc_warning, pdf_error))
   \<and> (\<exists>full_text.
      extract_pdf_data (single_file PDF_PATH doc_fallback) PDF_PATH
        = (Some full_text,
           Some (toc_header @ ''- 1 Einleitung ..... 5\<newline>- Methoden 12\<newline>- Anhang 30\<newline>''),
           None, None))"
proof -
  have sparse: "path_exists (single_file PDF_PATH doc_sparse) PDF_PATH"
    "fitz_open (single_file PDF_PATH doc_sparse) PDF_PATH = Inr doc_sparse"
    "get_toc doc_sparse = Inr []"
    by (simp_all add: single_file_def doc_sparse_def)
  have sparse_pages: "take max_toc_pages (pages doc_sparse) = map Inr [''Kapitel 12'', ''Text'']"
    by (simp add: doc_sparse_def max_toc_pages_def)
  have sparse_matches: "fallback_matches [''Kapitel 12'', ''Text''] = [''Kapitel 12'']"
    by code_simp
  have fallback: "path_exists (single_file PDF_PATH doc_fallback) PDF_PATH"
    "fitz_open (single_file PDF_PATH doc_fallback) PDF_PATH = Inr doc_fallback"
    "get_toc doc_fallback = Inr []"
    by (simp_all add: single_file_def doc_fallback_def)
  have fallback_pages: "pages doc_fallback
      = map Inr [''Inhalt\<newline>1 Einleitung ..... 5 \<newline>  Methoden 12\<newline>Anhang 30'', ''Text'']"
    "close doc_fallback = None"
    by (simp_all add: doc_fallback_def)
  have fallback_matches: "fallback_matches (take max_toc_pages
        [''Inhalt\<newline>1 Einleitung ..... 5 \<newline>  Methoden 12\<newline>Anhang 30'', ''Text''])
      = [''1 Einleitung ..... 5'', ''Methoden 12'', ''Anhang 30'']"
    by code_simp
  from fallback_outline [OF sparse, of "[''Kapitel 12'', ''Text'']"] sparse_pages sparse_matches
  have 1: "\<exists>full_text pdf_error.
      extract_pdf_data (single_file PDF_PATH doc_sparse) PDF_PATH
        = (full_text, None, Some toc_warning, pdf_error)"
    by simp
  from fallback_outline [OF fallback, of _
      "[''Inhalt\<newline>1 Einleitung ..... 5 \<newline>  Methoden 12\<newline>Anhang 30'', ''Text'']"]
    fallback_pages fallback_matches
  have 2: "\<exists>full_text.
      extract_pdf_data (single_file PDF_PATH doc_fallback) PDF_PATH
        = (Some full_text,
           Some (toc_header @ ''- 1 Einleitung ..... 5\<newline>- Methoden 12\<newline>- Anhang 30\<newline>''),
           None, None)"
    by (simp add: toc_bullet_def)
  from 1 2 show ?thesis by (rule conjI)
qed

text \<open>
  Claim C1 as stated fails for a document whose later pages cannot be read:
  \<open>doc_broken_page\<close> has no embedded outline and the scan of its first ten pages finds
  three candidate lines, but the text of its eleventh page raises, so the handler
  returns \<open>None\<close> as outline result.
\<close>

theorem fallback_outline_counterexample:
  "get_toc doc_broken_page = Inr []
   \<and> scan_pages doc_broken_page [0 ..< min max_toc_pages (page_count doc_broken_page)]
       (toc_header, 0)
     = Inr (toc_header @ ''- Einleitung 5\<newline>- Methoden 12\<newline>- Anhang 30\<newline>'', 3)
   \<and> extract_pdf_data (single_file PDF_PATH doc_broken_page) PDF_PATH
     = (None, None, None, Some ''Fehler bei der PDF-Verarbeitung: cannot load page'')"
  by code_simp


section \<open>The outline from the embedded outline\<close>

text \<open>
  Claim C3, amended. Take a document that exists, opens, has a non-empty embedded outline
  and is processed without an exception (every page can be read, closing does not
  raise). The outline result is the heading followed by one item per outline entry, in
  the order of the entries; the item of an entry is \<open>toc_line\<close> of it, that is
  \<open><indent>- <title> (Seite <page>)\<close>, and a line break. When no title holds a line
  break, the lines of the outline result are the two lines of the heading and exactly one
  line per entry. The indentation of an entry's line is two blanks for each level above
  the first (none for a level below 1), so it does not decrease when the level grows.
\<close>

theorem embedded_outline:
  assumes "path_exists fs pdf_path" "fitz_open fs pdf_path = Inr doc" "get_toc doc = Inr toc"
    and "toc \<noteq> []" "pages doc = map Inr texts" "close doc = None"
  shows "\<exists>full_text outline.
     extract_pdf_data fs pdf_path = (Some full_text, Some outline, None, None)
     \<and> outline = toc_header @ concat (map (\<lambda>entry. toc_line entry @ [CHR 0x0A]) toc)
     \<and> ((\<forall>entry \<in> set toc. CHR 0x0A \<notin> set (fst (snd entry))) \<longrightarrow>
          str_split (CHR 0x0A) outline = toc_header_lines @ map toc_line toc @ [[]])
     \<and> (\<forall>entry \<in> set toc. indentation (toc_line entry) = 2 * nat (fst entry - 1))
     \<and> (\<forall>a \<in> set toc. \<forall>b \<in> set toc.
          fst a \<le> fst b \<longrightarrow> indentation (toc_line a) \<le> indentation (toc_line b))"
proof -
  let ?outline = "toc_header @ concat (map (\<lambda>entry. toc_line entry @ [CHR 0x0A]) toc)"
  have toc: "extract_toc doc toc = Inr (Some ?outline, None)"
    using assms(4) by (rule extract_toc_embedded)
  have res: "extract_pdf_data fs pdf_path =
      (Some (concat (map2 page_block [1 ..< Suc (length texts)] texts)), Some ?outline, None, None)"
    using assms(1-3) toc assms(5,6) by (rule extract_pdf_data_ok)
  have lines: "str_split (CHR 0x0A) ?outline = toc_header_lines @ map toc_line toc @ [[]]"
    if "\<forall>entry \<in> set toc. CHR 0x0A \<notin> set (fst (snd entry))"
  proof -
    have "\<And>l. l \<in> set (map toc_line toc) \<Longrightarrow> CHR 0x0A \<notin> set l"
      using that newline_notin_toc_line by fastforce
    then have "str_split (CHR 0x0A) (toc_header @ concat (map (\<lambda>l. l @ [CHR 0x0A]) (map toc_line toc)))
                 = toc_header_lines @ map toc_line toc @ [[]]"
      by (rule split_rendered_lines)
    then show ?thesis by (simp add: comp_def)
  qed
  have ind: "indentation (toc_line entry) = 2 * nat (fst entry - 1)" for entry
    by (cases entry) (simp only: indentation_toc_line fst_conv)
  have mono: "indentation (toc_line a) \<le> indentation (toc_line b)" if "fst a \<le> fst b" for a b
    using that by (simp add: ind)
  from res lines ind mono show ?thesis by blast
qed

text \<open>The theorem at \<open>doc_outline\<close>, whose outline has three entries of the levels 1, 2, 1.\<close>

theorem embedded_outline_witness:
  "\<exists>full_text.
     extract_pdf_data (single_file PDF_PATH doc_outline) PDF_PATH
       = (Some full_text,
          Some (toc_header @ ''- Einleitung (Seite 5)\<newline>  - Ziele (Seite 7)\<newline>- Anhang (Seite 30)\<newline>''),
          None, None)
     \<and> str_split (CHR 0x0A)
          (toc_header @ ''- Einleitung (Seite 5)\<newline>  - Ziele (Seite 7)\<newline>- Anhang (Seite 30)\<newline>'')
        = toc_header_lines @ [''- Einleitung (Seite 5)'', ''  - Ziele (Seite 7)'', ''- Anhang (Seite 30)'', []]
     \<and> indentation ''  - Ziele (Seite 7)'' = 2"
proof -
  have h: "path_exists (single_file PDF_PATH doc_outline) PDF_PATH"
    "fitz_open (single_file PDF_PATH doc_outline) PDF_PATH = Inr doc_outline"
    "get_toc doc_outline = Inr [(1, ''Einleitung'', 5), (2, ''Ziele'', 7), (1, ''Anhang'', 30)]"
    "[(1, ''Einleitung'', 5), (2, ''Ziele'', 7), (1::int, ''Anhang'', 30::int)] \<noteq> []"
    "pages doc_outline = map Inr [''Hallo'', ''Welt'']"
    "close doc_outline = None"
    by (simp_all add: single_file_def doc_outline_def)
  have l: "toc_line (1, ''Einleitung'', 5) = ''- Einleitung (Seite 5)''"
    "toc_line (2, ''Ziele'', 7) = ''  - Ziele (Seite 7)''"
    "toc_line (1, ''Anhang'', 30) = ''- Anhang (Seite 30)''"
    by code_simp+
  from embedded_outline [OF h] show ?thesis
    by (simp del: toc_line.simps add: l)
qed

text \<open>
  Claim C3 as stated fails in three ways. The line of an entry reads
  \<open>- Einleitung (Seite 5)\<close>, with a dash before the title and \<open>Seite\<close> for the page, not
  \<open>Einleitung (Page 5)\<close>. A title that holds a line break (\<open>doc_title_newline\<close>) takes
  two lines for one entry. And when a page cannot be read
  (\<open>doc_outline_broken_page\<close>), the handler returns \<open>None\<close> as outline result although
  the embedded outline is not empty.
\<close>

theorem embedded_outline_counterexample:
  "extract_pdf_data (single_file PDF_PATH doc_outline) PDF_PATH
     = (Some ''\<newline>\<newline>[Seite 1]\<newline>Hallo\<newline>\<newline>[Seite 2]\<newline>Welt'',
        Some (toc_header @ ''- Einleitung (Seite 5)\<newline>  - Ziele (Seite 7)\<newline>- Anhang (Seite 30)\<newline>''),
        None, None)
   \<and> \<not> str_contains ''Einleitung (Page 5)''
        (toc_header @ ''- Einleitung (Seite 5)\<newline>  - Ziele (Seite 7)\<newline>- Anhang (Seite 30)\<newline>'')
   \<and> extract_pdf_data (single_file PDF_PATH doc_title_newline) PDF_PATH
     = (Some ''\<newline>\<newline>[Seite 1]\<newline>Hallo'',
        Some (toc_header @ ''- Teil 1\<newline>Grundlagen (Seite 3)\<newline>''), None, None)
   \<and> str_split (CHR 0x0A) (toc_header @ ''- Teil 1\<newline>Grundlagen (Seite 3)\<newline>'')
     = toc_header_lines @ [''- Teil 1'', ''Grundlagen (Seite 3)'', []]
   \<and> extract_pdf_data (single_file PDF_PATH doc_outline_broken_page) PDF_PATH
     = (None, None, None, Some ''Fehler bei der PDF-Verarbeitung: cannot load page'')"
  by code_simp


section \<open>The full text\<close>

text \<open>
  Claim C4, amended. Take a document that exists and opens, whose outline can be read
  (empty or not), whose pages can all be read and whose closing does not raise. The full
  text is the concatenation, in page order, of one block per page: two line breaks, the
  marker \<open>[Seite N]\<close> with the 1-based page number \<open>N\<close>, a line break and the raw text of
  the page. The markers so carry the numbers 1, 2, ... in this order. This holds for
  every outline: the embedded one, the one of the scan, and the discarded one.
\<close>

theorem full_text_blocks:
  assumes "path_exists fs pdf_path" "fitz_open fs pdf_path = Inr doc" "get_toc doc = Inr toc"
    and "pages doc = map Inr texts" "close doc = None"
  shows "\<exists>toc_text toc_error.
     extract_pdf_data fs pdf_path =
       (Some (concat (map2 page_block [1 ..< Suc (length texts)] texts)), toc_text, toc_error, None)"
proof -
  from extract_toc_total [OF assms(4)] obtain toc_text toc_error
    where "extract_toc doc toc = Inr (toc_text, toc_error)" by blast
  with assms have "extract_pdf_data fs pdf_path =
      (Some (concat (map2 page_block [1 ..< Suc (length texts)] texts)), toc_text, toc_error, None)"
    by (intro extract_pdf_data_ok)
  then show ?thesis by blast
qed

text \<open>The theorem at a document with an embedded outline and at one without.\<close>

theorem full_text_blocks_witness:
  "(\<exists>toc_text toc_error.
     extract_pdf_data (single_file PDF_PATH doc_outline) PDF_PATH =
       (Some ''\<newline>\<newline>[Seite 1]\<newline>Hallo\<newline>\<newline>[Seite 2]\<newline>Welt'', toc_text, toc_error, None))
   \<and> (\<exists>toc_text toc_error.
     extract_pdf_data (single_file PDF_PATH doc_sparse) PDF_PATH =
       (Some ''\<newline>\<newline>[Seite 1]\<newline>Kapitel 12\<newline>\<newline>[Seite 2]\<newline>Text'', toc_text, toc_error, None))"
proof -
  have a: "path_exists (single_file PDF_PATH doc_outline) PDF_PATH"
    "fitz_open (single_file PDF_PATH doc_outline) PDF_PATH = Inr doc_outline"
    "get_toc doc_outline = Inr [(1, ''Einleitung'', 5), (2, ''Ziele'', 7), (1, ''Anhang'', 30)]"
    "pages doc_outline = map Inr [''Hallo'', ''Welt'']"
    "close doc_outline = None"
    by (simp_all add: single_file_def doc_outline_def)
  have b: "path_exists (single_file PDF_PATH doc_sparse) PDF_PATH"
    "fitz_open (single_file PDF_PATH doc_sparse) PDF_PATH = Inr doc_sparse"
    "get_toc doc_sparse = Inr []"
    "pages doc_sparse = map Inr [''Kapitel 12'', ''Text'']"
    "close doc_sparse = None"
    by (simp_all add: single_file_def doc_sparse_def)
  have c: "concat (map2 page_block [1 ..< Suc (length [''Hallo'', ''Welt''])] [''Hallo'', ''Welt''])
             = ''\<newline>\<newline>[Seite 1]\<newline>Hallo\<newline>\<newline>[Seite 2]\<newline>Welt''"
    "concat (map2 page_block [1 ..< Suc (length [''Kapitel 12'', ''Text''])] [''Kapitel 12'', ''Text''])
             = ''\<newline>\<newline>[Seite 1]\<newline>Kapitel 12\<newline>\<newline>[Seite 2]\<newline>Text''"
    by code_simp+
  from full_text_blocks [OF a] full_text_blocks [OF b] show ?thesis
    unfolding c by (rule conjI)
qed

text \<open>
  Claim C4 as stated fails in two ways. \<open>doc_broken_outline\<close> is opened successfully and
  its page can be read, but reading its outline raises, and the handler returns \<open>None\<close>
  as full text. And the marker reads \<open>[Seite 1]\<close>: the full text holds no \<open>[Page 1]\<close>.
\<close>

theorem full_text_blocks_counterexample:
  "fitz_open (single_file PDF_PATH doc_broken_outline) PDF_PATH = Inr doc_broken_outline
   \<and> pages doc_broken_outline = [Inr ''Hallo'']
   \<and> extract_pdf_data (single_file PDF_PATH doc_broken_outline) PDF_PATH
     = (None, None, None, Some ''Fehler bei der PDF-Verarbeitung: bad outline'')
   \<and> extract_pdf_data (single_file PDF_PATH doc_sparse) PDF_PATH
     = (Some ''\<newline>\<newline>[Seite 1]\<newline>Kapitel 12\<newline>\<newline>[Seite 2]\<newline>Text'', None, Some toc_warning, None)
   \<and> \<not> str_contains ''[Page 1]'' ''\<newline>\<newline>[Seite 1]\<newline>Kapitel 12\<newline>\<newline>[Seite 2]\<newline>Text''"
  by code_simp


section \<open>A path that does not exist\<close>

text \<open>
  Claim C5 at the path \<open>missing.pdf\<close>, which does not exist: the full text and the outline
  are \<open>None\<close>, but the message that the file was not found stands in the third position
  of the tuple, the one of \<open>toc_error\<close>, and the fourth position, the one of \<open>pdf_error\<close>
  in which the handler of the \<open>try\<close> reports a fatal error, holds \<open>None\<close>.
\<close>

theorem missing_file_result:
  "\<not> path_exists (single_file PDF_PATH doc_outline) ''missing.pdf''
   \<and> extract_pdf_data (single_file PDF_PATH doc_outline) ''missing.pdf''
     = (None, None,
        Some (''Fehler: Die Handbuchdatei '' @ [CHR 0x27] @ ''missing.pdf'' @ [CHR 0x27]
              @ '' wurde nicht gefunden.''),
        None)"
  by code_simp


section \<open>Exceptions while the document is read\<close>

text \<open>
  Claim C6. For a path that exists: when a call raises (opening, reading the outline,
  reading the text of a page, closing), the result holds \<open>None\<close> as full text and as
  outline, and in the fourth position the message of a fatal error that ends with the
  text of the first exception raised; when no call raises, the full text is present and
  the fourth position holds \<open>None\<close>.
\<close>

theorem exception_is_fatal_error:
  assumes "path_exists fs pdf_path"
  shows "case first_exception fs pdf_path of
           Some e \<Rightarrow>
             \<exists>toc_error. extract_pdf_data fs pdf_path =
               (None, None, toc_error, Some (''Fehler bei der PDF-Verarbeitung: '' @ e))
         | None \<Rightarrow>
             \<exists>full_text toc_text toc_error. extract_pdf_data fs pdf_path =
               (Some full_text, toc_text, toc_error, None)"
proof (cases "fitz_open fs pdf_path")
  case (Inl e)
  with assms show ?thesis
    by (simp add: first_exception_def extract_pdf_data_def try_block_def)
next
  case doc: (Inr doc)
  show ?thesis
  proof (cases "get_toc doc")
    case (Inl e)
    with assms doc show ?thesis
      by (simp add: first_exception_def extract_pdf_data_def try_block_def)
  next
    case toc: (Inr toc)
    show ?thesis
    proof (cases "first_error (pages doc)")
      case (Some e)
      from try_block_page_error [OF doc toc Some] obtain toc_error
        where "try_block fs pdf_path = Inl (e, toc_error)" by blast
      with assms doc toc Some show ?thesis
        by (simp add: first_exception_def extract_pdf_data_def)
    next
      case None
      then obtain texts where texts: "pages doc = map Inr texts"
        using first_error_None by blast
      from extract_toc_total [OF texts] obtain toc_text toc_error
        where et: "extract_toc doc toc = Inr (toc_text, toc_error)" by blast
      show ?thesis
      proof (cases "close doc")
        case no_close_error: None
        from extract_pdf_data_ok [OF assms doc toc et texts no_close_error]
        show ?thesis using doc toc None no_close_error
          by (simp add: first_exception_def)
      next
        case (Some e)
        with assms doc toc None et texts show ?thesis
          by (simp add: first_exception_def extract_pdf_data_def try_block_def
              full_text_all_pages)
      qed
    qed
  qed
qed

text \<open>The theorem at \<open>doc_unreadable\<close>, whose second page cannot be read.\<close>

theorem exception_is_fatal_error_witness:
  "path_exists (single_file PDF_PATH doc_unreadable) PDF_PATH
   \<and> first_exception (single_file PDF_PATH doc_unreadable) PDF_PATH = Some ''cannot load page''
   \<and> (\<exists>toc_error. extract_pdf_data (single_file PDF_PATH doc_unreadable) PDF_PATH =
         (None, None, toc_error, Some ''Fehler bei der PDF-Verarbeitung: cannot load page''))"
proof -
  have h: "path_exists (single_file PDF_PATH doc_unreadable) PDF_PATH"
    by (simp add: single_file_def)
  have e: "first_exception (single_file PDF_PATH doc_unreadable) PDF_PATH = Some ''cannot load page''"
    by code_simp
  from exception_is_fatal_error [OF h] h e show ?thesis by simp
qed


section \<open>The classification of a line in the scan\<close>

text \<open>
  Claim C2, amended. In the scan, a line of page text is an outline candidate if and only
  if the line, stripped of the white space at its ends, meets the criteria of the
  specification (\<open>spec_candidate\<close>): it holds a run of three or more periods and a digit
  anywhere, or it is non-empty, ends in a digit and has more than 3 characters. A
  candidate is appended once, stripped, after \<open>- \<close> and before a line break, and counted
  once; any other line changes nothing.
\<close>

theorem fallback_line_classification:
  "scan_line (toc_text, found_toc_lines) line =
     (if spec_candidate (str_strip line)
      then (toc_text @ ''- '' @ str_strip line @ [CHR 0x0A], found_toc_lines + 1)
      else (toc_text, found_toc_lines))"
  unfolding spec_candidate_iff scan_line_eq toc_bullet_def by simp

text \<open>
  Claim C2 as stated, with the criteria read on the line of page text as it is, fails in
  both directions. The line \<open>Einleitung 5\<close> followed by a blank is a candidate for the
  code, though its last character is no digit and it holds no periods. The line \<open>a1\<close>
  after two blanks is non-empty, ends in a digit and has 4 characters, but the code
  leaves it out, since only 2 characters remain when it is stripped.
\<close>

theorem fallback_line_classification_counterexample:
  "scan_line ([], 0) ''Einleitung 5 '' = (''- Einleitung 5\<newline>'', 1)
   \<and> \<not> spec_candidate ''Einleitung 5 ''
   \<and> scan_line ([], 0) ''  a1'' = ([], 0)
   \<and> spec_candidate ''  a1''"
proof -
  have 1: "scan_line ([], 0) ''Einleitung 5 '' = (''- Einleitung 5\<newline>'', 1)"
    by code_simp
  have 2: "scan_line ([], 0) ''  a1'' = ([], 0)"
    by code_simp
  have 3: "\<not> toc_heuristic ''Einleitung 5 ''"
    by code_simp
  have 4: "toc_heuristic ''  a1''"
    by code_simp
  from 1 2 3 4 show ?thesis unfolding spec_candidate_iff by blast
qed

text \<open>
  Claim C10. A line that, stripped, meets both criteria (three periods in a row and a
  digit; a digit at the end and more than 3 characters) is appended exactly once and
  raises the count of candidate lines by exactly one: the first branch is taken and the
  second is not tried.
\<close>

theorem both_criteria_counted_once:
  assumes "str_contains ''...'' (str_strip line) \<and> list_ex isdigit (str_strip line)"
    and "str_strip line \<noteq> [] \<and> isdigit (last (str_strip line)) \<and> length (str_strip line) > 3"
  shows "scan_line (toc_text, found_toc_lines) line
           = (toc_text @ ''- '' @ str_strip line @ [CHR 0x0A], found_toc_lines + 1)"
  using assms(1) unfolding scan_line_def by simp

text \<open>The theorem at a line of a table of contents, with two candidates counted before.\<close>

theorem both_criteria_counted_once_witness:
  "scan_line (toc_header, 2) ''  1 Einleitung ..... 5''
     = (toc_header @ ''- 1 Einleitung ..... 5\<newline>'', 3)"
proof -
  have s: "str_strip ''  1 Einleitung ..... 5'' = ''1 Einleitung ..... 5''" by code_simp
  have a: "str_contains ''...'' ''1 Einleitung ..... 5'' \<and> list_ex isdigit ''1 Einleitung ..... 5''"
    by code_simp
  have b: "''1 Einleitung ..... 5'' \<noteq> [] \<and> isdigit (last ''1 Einleitung ..... 5'')
           \<and> length ''1 Einleitung ..... 5'' > 3"
    by code_simp
  have "scan_line (toc_header, 2) ''  1 Einleitung ..... 5''
     = (toc_header @ ''- '' @ str_strip ''  1 Einleitung ..... 5'' @ [CHR 0x0A], 2 + 1)"
  proof (rule both_criteria_counted_once)
    show "str_contains ''...'' (str_strip ''  1 Einleitung ..... 5'')
          \<and> list_ex isdigit (str_strip ''  1 Einleitung ..... 5'')"
      unfolding s by (rule a)
    show "str_strip ''  1 Einleitung ..... 5'' \<noteq> []
          \<and> isdigit (last (str_strip ''  1 Einleitung ..... 5''))
          \<and> length (str_strip ''  1 Einleitung ..... 5'') > 3"
      unfolding s by (rule b)
  qed
  then show ?thesis unfolding s by simp
qed


section \<open>The suggestion requester\<close>

text \<open>
  Claim C8. When the access credential is absent (\<open>None\<close> or the empty text),
  \<open>get_ai_suggestions\<close> shows the configuration error and returns \<open>None\<close>; the error is
  its only effect, so nothing is configured, no file is read and no request is sent.
\<close>

theorem missing_credential_no_call:
  assumes "\<not> truthy API_KEY"
  shows "get_ai_suggestions ext tpl API_KEY problem_description =
           ([St_error (''Google API-Schl'' @ [CHR 0xFC]
                       @ ''ssel nicht konfiguriert. Bitte .env-Datei pr'' @ [CHR 0xFC] @ ''fen.'')],
            None)"
  using assms by (simp add: get_ai_suggestions_def)

text \<open>The theorem at both absent credentials.\<close>

theorem missing_credential_no_call_witness:
  "\<not> truthy None \<and> \<not> truthy (Some [])
   \<and> get_ai_suggestions stub_external stub_template None ''Unser Team streitet.'' =
       ([St_error (''Google API-Schl'' @ [CHR 0xFC]
                   @ ''ssel nicht konfiguriert. Bitte .env-Datei pr'' @ [CHR 0xFC] @ ''fen.'')],
        None)
   \<and> get_ai_suggestions stub_external stub_template (Some []) ''Unser Team streitet.'' =
       ([St_error (''Google API-Schl'' @ [CHR 0xFC]
                   @ ''ssel nicht konfiguriert. Bitte .env-Datei pr'' @ [CHR 0xFC] @ ''fen.'')],
        None)"
proof -
  have a: "\<not> truthy None" and b: "\<not> truthy (Some [])" by (simp_all add: truthy_def)
  from a b missing_credential_no_call [OF a, of stub_external stub_template "''Unser Team streitet.''"]
    missing_credential_no_call [OF b, of stub_external stub_template "''Unser Team streitet.''"]
  show ?thesis by blast
qed

text \<open>
  Claim C9. With a credential: when every call succeeds, \<open>get_ai_suggestions\<close> returns the
  text of the response as it is, after one request with the bytes of the handbook and the
  prompt. When a call raises (configuring, building the model, reading the file, the
  request, or reading the text of the response), it returns \<open>None\<close>, and its last effect
  is the error message shown to the user, which ends with the text of the exception.
  The function has a result in every case: no exception leaves it.
\<close>

theorem suggestion_requester_boundary:
  assumes "truthy API_KEY"
  shows "(genai_configure ext API_KEY = None \<and> generative_model ext MODEL_NAME = None
          \<and> read_file ext PDF_PATH = Inr pdf_data
          \<and> generate_content ext API_KEY MODEL_NAME pdf_data
               (prompt_before tpl @ problem_description @ prompt_after tpl) = Inr (Inr text)
          \<longrightarrow> get_ai_suggestions ext tpl API_KEY problem_description =
                ([Genai_configure API_KEY, Generative_model MODEL_NAME, Open_read PDF_PATH,
                  Generate_content pdf_data
                    (prompt_before tpl @ problem_description @ prompt_after tpl)],
                 Some text))
       \<and> (genai_configure ext API_KEY = Some e
          \<or> genai_configure ext API_KEY = None \<and> generative_model ext MODEL_NAME = Some e
          \<or> genai_configure ext API_KEY = None \<and> generative_model ext MODEL_NAME = None
            \<and> read_file ext PDF_PATH = Inl e
          \<or> genai_configure ext API_KEY = None \<and> generative_model ext MODEL_NAME = None
            \<and> read_file ext PDF_PATH = Inr pdf_data
            \<and> generate_content ext API_KEY MODEL_NAME pdf_data
                 (prompt_before tpl @ problem_description @ prompt_after tpl) = Inl e
          \<or> genai_configure ext API_KEY = None \<and> generative_model ext MODEL_NAME = None
            \<and> read_file ext PDF_PATH = Inr pdf_data
            \<and> generate_content ext API_KEY MODEL_NAME pdf_data
                 (prompt_before tpl @ problem_description @ prompt_after tpl) = Inr (Inl e)
          \<longrightarrow> snd (get_ai_suggestions ext tpl API_KEY problem_description) = None
              \<and> fst (get_ai_suggestions ext tpl API_KEY problem_description) \<noteq> []
              \<and> last (fst (get_ai_suggestions ext tpl API_KEY problem_description))
                  = St_error (''Fehler bei der Kommunikation mit der Gemini API: '' @ e))"
  using assms
  by (auto simp: get_ai_suggestions_def try_suggestions_def Let_def)

text \<open>The theorem at a service that answers and at one whose request raises.\<close>

theorem suggestion_requester_boundary_witness:
  "get_ai_suggestions stub_external stub_template (Some ''key'') ''Unser Team streitet.'' =
     ([Genai_configure (Some ''key''), Generative_model MODEL_NAME, Open_read PDF_PATH,
       Generate_content ''%PDF-1.4'' ''PROBLEMBESCHREIBUNG DES BENUTZERS: Unser Team streitet.''],
      Some ''## Result\<newline>OK'')
   \<and> snd (get_ai_suggestions failing_external stub_template (Some ''key'') ''Unser Team streitet.'')
       = None
   \<and> last (fst (get_ai_suggestions failing_external stub_template (Some ''key'')
                  ''Unser Team streitet.''))
       = St_error ''Fehler bei der Kommunikation mit der Gemini API: 429 quota exceeded''"
proof -
  have k: "truthy (Some ''key'')" by (simp add: truthy_def)
  from suggestion_requester_boundary [OF k, of stub_external "''%PDF-1.4''" stub_template
      "''Unser Team streitet.''" "''## Result\<newline>OK''"]
  have 1: "get_ai_suggestions stub_external stub_template (Some ''key'') ''Unser Team streitet.'' =
     ([Genai_configure (Some ''key''), Generative_model MODEL_NAME, Open_read PDF_PATH,
       Generate_content ''%PDF-1.4'' ''PROBLEMBESCHREIBUNG DES BENUTZERS: Unser Team streitet.''],
      Some ''## Result\<newline>OK'')"
    by (simp add: stub_external_def stub_template_def)
  from suggestion_requester_boundary [OF k, of failing_external "''%PDF-1.4''" stub_template
      "''Unser Team streitet.''" _ "''429 quota exceeded''"]
  have 2: "snd (get_ai_suggestions failing_external stub_template (Some ''key'') ''Unser Team streitet.'')
       = None
   \<and> last (fst (get_ai_suggestions failing_external stub_template (Some ''key'')
                  ''Unser Team streitet.''))
       = St_error ''Fehler bei der Kommunikation mit der Gemini API: 429 quota exceeded''"
    by (simp add: failing_external_def stub_template_def)
  from 1 2 show ?thesis by (rule conjI)
qed


section \<open>The validation of a submission\<close>

text \<open>
  Claim C7, amended. When the form is submitted with a problem description that is
  missing or shorter than 20 characters, the only effect is the validation warning:
  \<open>get_ai_suggestions\<close> is not called. When the description has 20 characters or more
  (exactly 20 included) and the access credential is configured, \<open>get_ai_suggestions\<close> is
  called: its effects, which start with the configuration of the client, follow the
  spinner. When the description has 20 characters or more and the access credential is
  absent (\<open>None\<close> or the empty text), the only effect is the configuration error of
  \<open>main\<close>: \<open>get_ai_suggestions\<close> is not called.
\<close>

theorem submission_validation:
  "((case problem_description of None \<Rightarrow> True | Some description \<Rightarrow> length description < 20) \<longrightarrow>
      main_process ext tpl API_KEY True problem_description =
        [St_warning (''Bitte geben Sie eine aussagekr'' @ [CHR 0xE4]
                     @ ''ftige Problembeschreibung ein (mind. 20 Zeichen).'')])
   \<and> (20 \<le> length description \<and> truthy API_KEY \<longrightarrow>
        (\<exists>requested shown.
           fst (get_ai_suggestions ext tpl API_KEY description) = Genai_configure API_KEY # requested
           \<and> main_process ext tpl API_KEY True (Some description) =
               [St_spinner (''KI analysiert das Problem und sucht nach '' @ [CHR 0xDC]
                            @ ''bungen...'')]
               @ fst (get_ai_suggestions ext tpl API_KEY description)
               @ [St_markdown ''---'', St_subheader ''Ergebnis der Analyse'']
               @ shown))
   \<and> (20 \<le> length description \<and> \<not> truthy API_KEY \<longrightarrow>
        main_process ext tpl API_KEY True (Some description) =
          [St_error (''Google API-Schl'' @ [CHR 0xFC] @ ''ssel fehlt. Bitte konfigurieren.'')])"
proof (intro conjI impI)
  assume "case problem_description of None \<Rightarrow> True | Some description \<Rightarrow> length description < 20"
  then show "main_process ext tpl API_KEY True problem_description =
        [St_warning (''Bitte geben Sie eine aussagekr'' @ [CHR 0xE4]
                     @ ''ftige Problembeschreibung ein (mind. 20 Zeichen).'')]"
    by (cases problem_description) (auto simp: main_process_def)
next
  assume a: "20 \<le> length description \<and> truthy API_KEY"
  then have ne: "description \<noteq> []" by auto
  from a get_ai_suggestions_starts obtain requested
    where r: "fst (get_ai_suggestions ext tpl API_KEY description) = Genai_configure API_KEY # requested"
    by blast
  obtain effects suggestions
    where g: "get_ai_suggestions ext tpl API_KEY description = (effects, suggestions)"
    by (cases "get_ai_suggestions ext tpl API_KEY description")
  from a ne g have "\<exists>shown. main_process ext tpl API_KEY True (Some description) =
               [St_spinner (''KI analysiert das Problem und sucht nach '' @ [CHR 0xDC]
                            @ ''bungen...'')]
               @ fst (get_ai_suggestions ext tpl API_KEY description)
               @ [St_markdown ''---'', St_subheader ''Ergebnis der Analyse'']
               @ shown"
    by (simp add: main_process_def)
  with r show "\<exists>requested shown.
           fst (get_ai_suggestions ext tpl API_KEY description) = Genai_configure API_KEY # requested
           \<and> main_process ext tpl API_KEY True (Some description) =
               [St_spinner (''KI analysiert das Problem und sucht nach '' @ [CHR 0xDC]
                            @ ''bungen...'')]
               @ fst (get_ai_suggestions ext tpl API_KEY description)
               @ [St_markdown ''---'', St_subheader ''Ergebnis der Analyse'']
               @ shown"
    by blast
next
  assume "20 \<le> length description \<and> \<not> truthy API_KEY"
  then show "main_process ext tpl API_KEY True (Some description) =
          [St_error (''Google API-Schl'' @ [CHR 0xFC] @ ''ssel fehlt. Bitte konfigurieren.'')]"
    by (auto simp: main_process_def)
qed

text \<open>
  The theorem at a missing description, at one of 19 characters, at one of 20
  characters with a credential, and at one of 20 characters with the empty credential.
\<close>

theorem submission_validation_witness:
  "main_process stub_external stub_template (Some ''key'') True None =
     [St_warning (''Bitte geben Sie eine aussagekr'' @ [CHR 0xE4]
                  @ ''ftige Problembeschreibung ein (mind. 20 Zeichen).'')]
   \<and> main_process stub_external stub_template (Some ''key'') True (Some ''Unser Team streitet'') =
     [St_warning (''Bitte geben Sie eine aussagekr'' @ [CHR 0xE4]
                  @ ''ftige Problembeschreibung ein (mind. 20 Zeichen).'')]
   \<and> length ''Unser Team streitet.'' = 20
   \<and> (\<exists>shown. main_process stub_external stub_template (Some ''key'') True
                 (Some ''Unser Team streitet.'') =
         [St_spinner (''KI analysiert das Problem und sucht nach '' @ [CHR 0xDC] @ ''bungen...''),
          Genai_configure (Some ''key''), Generative_model MODEL_NAME, Open_read PDF_PATH,
          Generate_content ''%PDF-1.4'' ''PROBLEMBESCHREIBUNG DES BENUTZERS: Unser Team streitet.'',
          St_markdown ''---'', St_subheader ''Ergebnis der Analyse''] @ shown)
   \<and> main_process stub_external stub_template (Some []) True (Some ''Unser Team streitet.'') =
       [St_error (''Google API-Schl'' @ [CHR 0xFC] @ ''ssel fehlt. Bitte konfigurieren.'')]"
proof -
  have k: "truthy (Some ''key'')" by (simp add: truthy_def)
  have n: "\<not> truthy (Some [])" by (simp add: truthy_def)
  have g: "fst (get_ai_suggestions stub_external stub_template (Some ''key'') ''Unser Team streitet.'')
      = [Genai_configure (Some ''key''), Generative_model MODEL_NAME, Open_read PDF_PATH,
         Generate_content ''%PDF-1.4'' ''PROBLEMBESCHREIBUNG DES BENUTZERS: Unser Team streitet.'']"
    by (simp add: get_ai_suggestions_def try_suggestions_def stub_external_def stub_template_def k)
  from submission_validation [of None stub_external stub_template "Some ''key''"]
  have 1: "main_process stub_external stub_template (Some ''key'') True None =
     [St_warning (''Bitte geben Sie eine aussagekr'' @ [CHR 0xE4]
                  @ ''ftige Problembeschreibung ein (mind. 20 Zeichen).'')]"
    by simp
  from submission_validation [of "Some ''Unser Team streitet''" stub_external stub_template "Some ''key''"]
  have 2: "main_process stub_external stub_template (Some ''key'') True (Some ''Unser Team streitet'') =
     [St_warning (''Bitte geben Sie eine aussagekr'' @ [CHR 0xE4]
                  @ ''ftige Problembeschreibung ein (mind. 20 Zeichen).'')]"
    by simp
  have 3: "length ''Unser Team streitet.'' = 20" by simp
  from submission_validation [of None stub_external stub_template "Some ''key''" "''Unser Team streitet.''"]
    k 3
  have 4: "\<exists>shown. main_process stub_external stub_template (Some ''key'') True
                 (Some ''Unser Team streitet.'') =
         [St_spinner (''KI analysiert das Problem und sucht nach '' @ [CHR 0xDC] @ ''bungen...''),
          Genai_configure (Some ''key''), Generative_model MODEL_NAME, Open_read PDF_PATH,
          Generate_content ''%PDF-1.4'' ''PROBLEMBESCHREIBUNG DES BENUTZERS: Unser Team streitet.'',
          St_markdown ''---'', St_subheader ''Ergebnis der Analyse''] @ shown"
    unfolding g by simp
  from submission_validation [of None stub_external stub_template "Some []" "''Unser Team streitet.''"]
    n 3
  have 5: "main_process stub_external stub_template (Some []) True (Some ''Unser Team streitet.'') =
       [St_error (''Google API-Schl'' @ [CHR 0xFC] @ ''ssel fehlt. Bitte konfigurieren.'')]"
    by simp
  from 1 2 3 4 5 show ?thesis by blast
qed

text \<open>
  Claim C7 as stated fails when the access credential is absent: a description of exactly
  20 characters passes the validation, but \<open>main\<close> shows the configuration error and
  does not call \<open>get_ai_suggestions\<close>.
\<close>

theorem submission_validation_counterexample:
  "length ''Unser Team streitet.'' = 20
   \<and> main_process stub_external stub_template None True (Some ''Unser Team streitet.'') =
       [St_error (''Google API-Schl'' @ [CHR 0xFC] @ ''ssel fehlt. Bitte konfigurieren.'')]"
  by (simp add: main_process_def truthy_def)


section \<open>A document without pages\<close>

text \<open>
  A document with no pages and no embedded outline is no error: the full text is empty,
  the outline result is \<open>None\<close> and the warning is set.
\<close>

theorem empty_document:
  assumes "path_exists fs pdf_path" "fitz_open fs pdf_path = Inr doc"
    and "get_toc doc = Inr []" "pages doc = []" "close doc = None"
  shows "extract_pdf_data fs pdf_path = (Some [], None, Some toc_warning, None)"
  using assms
  by (simp add: extract_pdf_data_def try_block_def extract_toc_def page_count_def)

theorem empty_document_witness:
  "extract_pdf_data (single_file PDF_PATH doc_empty) PDF_PATH
     = (Some [], None, Some toc_warning, None)"
proof -
  have "path_exists (single_file PDF_PATH doc_empty) PDF_PATH"
    "fitz_open (single_file PDF_PATH doc_empty) PDF_PATH = Inr doc_empty"
    "get_toc doc_empty = Inr []" "pages doc_empty = []" "close doc_empty = None"
    by (simp_all add: single_file_def doc_empty_def)
  then show ?thesis by (rule empty_document)
qed

end
